theory Spec2Isabelle
  imports Main
begin

section \<open>Python values that the command layer handles\<close>

text \<open>
  The exceptions the modelled code can raise. \<open>Raised n\<close> is an exception of class \<open>n\<close>
  coming out of an external collaborator (the remote service, an installer backend, the
  rich and InquirerPy libraries, the operating system).
\<close>

datatype exn =
    NameError string
  | UnboundLocalError string
  | TypeError string
  | KeyError string
  | EOFError
  | Raised string

fun exn_name :: "exn \<Rightarrow> string" where
  "exn_name (NameError _) = ''NameError''"
| "exn_name (UnboundLocalError _) = ''UnboundLocalError''"
| "exn_name (TypeError _) = ''TypeError''"
| "exn_name (KeyError _) = ''KeyError''"
| "exn_name EOFError = ''EOFError''"
| "exn_name (Raised n) = n"

text \<open>Truthiness of an \<open>Optional[str]\<close>: \<open>None\<close> and the empty string are falsy.\<close>

definition truthy :: "string option \<Rightarrow> bool" where
  "truthy x = (case x of None \<Rightarrow> False | Some s \<Rightarrow> s \<noteq> [])"

text \<open>\<open>str(x)\<close> inside an f-string, for an \<open>Optional[str]\<close>.\<close>

definition fmt :: "string option \<Rightarrow> string" where
  "fmt x = (case x of None \<Rightarrow> ''None'' | Some s \<Rightarrow> s)"

text \<open>\<open>s.split(c)\<close> for a one-character separator: never empty.\<close>

fun split :: "char \<Rightarrow> string \<Rightarrow> string list" where
  "split c [] = [[]]"
| "split c (x # xs) =
     (if x = c then [] # split c xs
      else (case split c xs of [] \<Rightarrow> [[x]] | y # ys \<Rightarrow> (x # y) # ys))"

text \<open>\<open>s.split('/')[-1]\<close>\<close>

definition last_component :: "string \<Rightarrow> string" where
  "last_component s = last (split (CHR ''/'') s)"

text \<open>
  The result dictionary of an install or uninstall backend. \<open>status\<close> and
  \<open>executable_files\<close> are only read with \<open>.get\<close>, where a missing key and a key holding
  \<open>None\<close> are the same. \<open>install_path\<close> is also read with \<open>result['install_path']\<close>,
  which raises on a missing key only: \<open>None\<close> is the missing key, \<open>Some None\<close> the key
  holding \<open>None\<close>.
\<close>

record outcome =
  status :: "string option"
  install_path :: "string option option"
  executable_files :: "string list option"

text \<open>\<open>result.get("install_path")\<close>\<close>

definition get_install_path :: "outcome \<Rightarrow> string option" where
  "get_install_path result = (case install_path result of None \<Rightarrow> None | Some v \<Rightarrow> v)"

text \<open>
  A catalog entry of \<open>heirloom.games\<close>; the last two keys exist only after a merge
  (\<open>None\<close> is the missing key).
\<close>

record game =
  game_name :: string
  installer_uuid :: string
  game_description :: string
  install_dir :: "string option option"
  executable :: "string option"

section \<open>The rich console\<close>

datatype printable =
    Markup string
  | Exception exn
  | Result outcome
  | Table "(string \<times> string \<times> string) list"

text \<open>
  What reaches the outside world, in order: output of the rich console, standard output,
  and the calls made to external collaborators.
\<close>

datatype event =
    RichPrint printable "string option"
  | RichStatus string
  | RichLog string string
  | StdoutJson "game list"
  | Stdout string
  | InputPrompt string
  | Select string "string list"
  | HeirloomLogin
  | RefreshGamesList
  | DownloadGame "string option"
  | InstallGame "string option" "string option"
  | UninstallGame "string option"
  | MakeDirs string
  | Run "string list"

text \<open>
  A string printed by rich is parsed as console markup, and a closing tag that matches
  no open tag raises MarkupError; a style name rich cannot resolve raises MissingStyle.
  What rich decides for an arbitrary string is a parameter. Two things are fixed here.
  A string is certainly accepted when it has no backslash and each of its brackets is a
  tag of lowercase words, every closing tag naming the innermost open one (a string
  without brackets in particular): \<open>well_tagged\<close>. The colour names that console.py
  uses as styles resolve, and \<open>'info'\<close>, the default style of \<open>Console.log\<close>, does not.
\<close>

record rich =
  markup_error :: "string \<Rightarrow> bool"
  style_error :: "string \<Rightarrow> bool"

definition style_words :: "string \<Rightarrow> bool" where
  "style_words name =
     (case name of
        [] \<Rightarrow> False
      | c # cs \<Rightarrow> c \<in> set ''abcdefghijklmnopqrstuvwxyz''
                 \<and> last (c # cs) \<in> set ''abcdefghijklmnopqrstuvwxyz''
                 \<and> list_all (\<lambda>x. x \<in> set ''abcdefghijklmnopqrstuvwxyz '') cs)"

datatype scan = Unknown | Text "string list" | Tag "string list" string

definition close_tag :: "string list \<Rightarrow> string \<Rightarrow> scan" where
  "close_tag open_tags tag =
     (case tag of
        [] \<Rightarrow> Unknown
      | c # name \<Rightarrow>
          if c = CHR ''/''
          then (case open_tags of
                  [] \<Rightarrow> Unknown
                | innermost # rest \<Rightarrow>
                    if style_words name \<and> name = innermost then Text rest else Unknown)
          else if style_words (c # name) then Text ((c # name) # open_tags) else Unknown)"

fun scan_char :: "scan \<Rightarrow> char \<Rightarrow> scan" where
  "scan_char Unknown c = Unknown"
| "scan_char (Text open_tags) c =
     (if c = CHR 0x5C then Unknown else if c = CHR ''['' then Tag open_tags [] else Text open_tags)"
| "scan_char (Tag open_tags tag) c =
     (if c = CHR '']'' then close_tag open_tags tag
      else if c = CHR ''['' then Unknown
      else if c = CHR 0x5C then Unknown
      else Tag open_tags (tag @ [c]))"

definition well_tagged :: "string \<Rightarrow> bool" where
  "well_tagged s = (case foldl scan_char (Text []) s of Text _ \<Rightarrow> True | _ \<Rightarrow> False)"

definition MarkupError_raised :: "rich \<Rightarrow> string \<Rightarrow> bool" where
  "MarkupError_raised r s = (if well_tagged s then False else markup_error r s)"

definition MissingStyle_raised :: "rich \<Rightarrow> string \<Rightarrow> bool" where
  "MissingStyle_raised r style =
     (if style = ''info'' then True
      else if style \<in> set [''yellow'', ''red'', ''green''] then False
      else style_error r style)"

text \<open>
  \<open>RichConsole.print(x, style=style)\<close> and \<open>RichConsole.log(text, style=style)\<close>: the
  markup of a string is parsed first, then the style is resolved, and only then
  anything is written. An object that is no string (an exception, a dictionary, a table)
  is not parsed as markup.
\<close>

definition style_check :: "rich \<Rightarrow> string option \<Rightarrow> exn option" where
  "style_check r style =
     (case style of
        None \<Rightarrow> None
      | Some st \<Rightarrow> if MissingStyle_raised r st then Some (Raised ''MissingStyle'') else None)"

definition rich_print :: "rich \<Rightarrow> printable \<Rightarrow> string option \<Rightarrow> event list \<Rightarrow> exn + event list" where
  "rich_print r x style t =
     (case (case x of
              Markup m \<Rightarrow> if MarkupError_raised r m then Some (Raised ''MarkupError'')
                          else style_check r style
            | _ \<Rightarrow> style_check r style) of
        Some e \<Rightarrow> Inl e
      | None \<Rightarrow> Inr (t @ [RichPrint x style]))"

definition rich_log :: "rich \<Rightarrow> string \<Rightarrow> string \<Rightarrow> event list \<Rightarrow> exn + event list" where
  "rich_log r text style t =
     (if MarkupError_raised r text then Inl (Raised ''MarkupError'')
      else if MissingStyle_raised r style then Inl (Raised ''MissingStyle'')
      else Inr (t @ [RichLog text style]))"

section \<open>console.py\<close>

record Console =
  quiet :: bool

text \<open>What a call returns to a \<open>with\<close> statement: \<open>None\<close>, or a context manager.\<close>

datatype pyobj = NoneObj | ContextManager

text \<open>
  The methods take the rich library as their first argument: every Console makes its
  own \<open>RichConsole()\<close>, with the library's defaults.
\<close>

definition Console_print :: "rich \<Rightarrow> Console \<Rightarrow> printable \<Rightarrow> string option \<Rightarrow> event list
    \<Rightarrow> exn + event list" where
  "Console_print r self x style t = (if \<not> quiet self then rich_print r x style t else Inr t)"

text \<open>
  \<open>status\<close> enters and leaves the rich status display itself (\<open>with ...: pass\<close>) and
  falls off its end in both branches: its value is \<open>None\<close>.
\<close>

definition Console_status :: "Console \<Rightarrow> string \<Rightarrow> event list \<Rightarrow> pyobj \<times> event list" where
  "Console_status self message t =
     (if \<not> quiet self then (NoneObj, t @ [RichStatus message]) else (NoneObj, t))"

text \<open>The caller passes the style; a call without one passes the default \<open>'info'\<close>.\<close>

definition Console_log :: "rich \<Rightarrow> Console \<Rightarrow> string \<Rightarrow> string \<Rightarrow> event list
    \<Rightarrow> exn + event list" where
  "Console_log r self text style t = (if \<not> quiet self then rich_log r text style t else Inr t)"

definition Console_warn :: "rich \<Rightarrow> Console \<Rightarrow> string \<Rightarrow> event list \<Rightarrow> exn + event list" where
  "Console_warn r self text t =
     (if \<not> quiet self
      then rich_print r (Markup (''[bold yellow]Warning:[/bold yellow] '' @ text)) (Some ''yellow'') t
      else Inr t)"

definition Console_error :: "rich \<Rightarrow> Console \<Rightarrow> string \<Rightarrow> event list \<Rightarrow> exn + event list" where
  "Console_error r self text t =
     (if \<not> quiet self
      then rich_print r (Markup (''[bold red]Error:[/bold red] '' @ text)) (Some ''red'') t
      else Inr t)"

definition Console_success :: "rich \<Rightarrow> Console \<Rightarrow> string \<Rightarrow> event list \<Rightarrow> exn + event list" where
  "Console_success r self text t =
     (if \<not> quiet self
      then rich_print r (Markup (''[bold green]Success:[/bold green] '' @ text)) (Some ''green'') t
      else Inr t)"

section \<open>The Record Store\<close>

text \<open>
  The sentinel the command layer compares against (\<open>'Not Installed'\<close> in
  \<open>merge_game_data_with_db\<close>, \<open>select_from_games_list\<close> and \<open>list_games\<close>).
\<close>

definition NOT_INSTALLED :: string where
  "NOT_INSTALLED = ''Not Installed''"

text \<open>
  A stored record, with the keys \<open>write_game_record\<close> is called with. The command layer
  passes \<open>name\<close>, \<open>uuid\<close> and \<open>install_dir\<close> as values that may be \<open>None\<close>; the
  executable is always a string.
\<close>

record game_record =
  rec_uuid :: "string option"
  rec_name :: "string option"
  rec_install_dir :: "string option"
  rec_executable :: string

type_synonym store = "game_record list"

text \<open>
  Modelled from the spec: \<open>read_game_record\<close> of the missing module database_functions,
  after \<open>get(titleId?, name?)\<close> of section 4.1: exactly one of the two is supplied,
  \<open>InvalidQuery\<close> if both or neither; a name lookup returns the first match in
  insertion order; a missing record is \<open>None\<close>.
\<close>

definition read_game_record :: "store \<Rightarrow> string option \<Rightarrow> string option \<Rightarrow> exn + game_record option" where
  "read_game_record d uuid name =
     (case (uuid, name) of
        (Some u, None) \<Rightarrow> Inr (find (\<lambda>r. rec_uuid r = Some u) d)
      | (None, Some n) \<Rightarrow> Inr (find (\<lambda>r. rec_name r = Some n) d)
      | _ \<Rightarrow> Inl (Raised ''InvalidQuery''))"

text \<open>
  Modelled from the spec: \<open>write_game_record\<close> of the missing module database_functions,
  after \<open>upsert(record)\<close> of section 4.1: insert if absent, else overwrite all fields
  except the identifier.
\<close>

definition write_game_record :: "store \<Rightarrow> string option \<Rightarrow> string option \<Rightarrow> string option
    \<Rightarrow> string \<Rightarrow> store" where
  "write_game_record d name uuid dir exe =
     (if list_ex (\<lambda>r. rec_uuid r = uuid) d
      then map (\<lambda>r. if rec_uuid r = uuid
                     then r\<lparr>rec_name := name, rec_install_dir := dir, rec_executable := exe\<rparr>
                     else r) d
      else d @ [\<lparr>rec_uuid = uuid, rec_name = name, rec_install_dir = dir, rec_executable = exe\<rparr>])"

text \<open>
  Modelled from the spec: \<open>delete_game_record\<close> of the missing module database_functions,
  after \<open>delete(titleId)\<close> of section 4.1: removes the record with that identifier, and
  is a no-op if there is none.
\<close>

definition delete_game_record :: "store \<Rightarrow> string option \<Rightarrow> store" where
  "delete_game_record d uuid = filter (\<lambda>r. rec_uuid r \<noteq> uuid) d"

text \<open>
  Modelled from the spec: \<open>init_games_db\<close> of the missing module database_functions,
  after \<open>initializeFrom(catalog)\<close> of section 4.1: every catalog entry with no record
  gets a placeholder with both fields NOT_INSTALLED; existing records are left untouched.
\<close>

fun init_games_db :: "game list \<Rightarrow> store \<Rightarrow> store" where
  "init_games_db [] d = d"
| "init_games_db (g # gs) d =
     init_games_db gs
       (if list_ex (\<lambda>r. rec_uuid r = Some (installer_uuid g)) d then d
        else d @ [\<lparr>rec_uuid = Some (installer_uuid g), rec_name = Some (game_name g),
                   rec_install_dir = Some NOT_INSTALLED, rec_executable = NOT_INSTALLED\<rparr>])"

text \<open>
  Modelled from the spec: \<open>refresh_game_installation_status\<close> of the missing module
  database_functions, after the Status Reconciler of section 4.3: a record whose install
  directory is set and whose executable path is no longer on disk is downgraded, both
  fields to NOT_INSTALLED, and the downgrade is persisted. The disk probe is a parameter.
\<close>

definition refresh_game_installation_status :: "(string \<Rightarrow> bool) \<Rightarrow> store \<Rightarrow> store" where
  "refresh_game_installation_status probe d =
     map (\<lambda>r. if rec_install_dir r \<noteq> Some NOT_INSTALLED \<and> \<not> probe (rec_executable r)
               then r\<lparr>rec_install_dir := Some NOT_INSTALLED, rec_executable := NOT_INSTALLED\<rparr>
               else r) d"

section \<open>The collaborators of the command layer\<close>

text \<open>
  Everything cli/__init__.py calls that is neither in it nor in console.py: the Heirloom
  client, the rich library, the interactive prompt, the operating system, and the names
  its star imports bind (each with the truthiness of its value). A call that can fail
  returns the exception on the left. The prompt returns one of the choices it is given:
  \<open>inquirer_select\<close> is the position the user picks, counted round the list, and
  \<open>inquirer_no_choices\<close> is the exception of a prompt with nothing to offer.
\<close>

record world =
  star_import :: "string \<Rightarrow> bool option"
  rich_library :: rich
  heirloom_login :: "exn + string"
  heirloom_refresh_games_list :: "exn + game list"
  heirloom_get_game_from_uuid :: "game list \<Rightarrow> string option \<Rightarrow> exn + string option"
  heirloom_get_uuid_from_name :: "game list \<Rightarrow> string option \<Rightarrow> exn + string option"
  heirloom_download_game :: "string option \<Rightarrow> exn + string"
  heirloom_install_game :: "string option \<Rightarrow> string option \<Rightarrow> exn + outcome"
  heirloom_uninstall_game :: "string option \<Rightarrow> exn + outcome"
  heirloom_dump_game_data :: "game list \<Rightarrow> string option \<Rightarrow> exn + string"
  inquirer_select :: "string \<Rightarrow> string list \<Rightarrow> nat"
  inquirer_no_choices :: exn
  disk_probe :: "string \<Rightarrow> bool"
  os_path_expanduser :: "string \<Rightarrow> string"
  os_path_isdir :: "string \<Rightarrow> bool"
  os_makedirs :: "string \<Rightarrow> exn + unit"
  subprocess_run :: "string list \<Rightarrow> exn + string"

section \<open>cli/__init__.py: HeirloomManager\<close>

datatype InstallationMethod = wine | sevenzip

fun method_value :: "InstallationMethod \<Rightarrow> string" where
  "method_value wine = ''wine''"
| "method_value sevenzip = ''7zip''"

text \<open>
  The manager object and what it reaches: its console, the configuration dictionary
  (the keys the commands read), the store behind \<open>config['db']\<close>, the client's game
  list, the lines still to be read from standard input, and the events so far.
\<close>

record manager =
  console :: Console
  user_id :: "string option"
  base_install_dir :: "string option"
  wine_path :: "string option"
  db_handle :: bool
  db :: store
  games :: "game list"
  stdin :: "string list"
  trace :: "event list"

type_synonym 'a cmd = "manager \<Rightarrow> (exn + 'a) \<times> manager"

definition ret :: "'a \<Rightarrow> 'a cmd" where
  "ret x s = (Inr x, s)"

definition raise :: "exn \<Rightarrow> 'a cmd" where
  "raise e s = (Inl e, s)"

definition bnd :: "'a cmd \<Rightarrow> ('a \<Rightarrow> 'b cmd) \<Rightarrow> 'b cmd" where
  "bnd m f s = (case m s of (Inl e, s') \<Rightarrow> (Inl e, s') | (Inr x, s') \<Rightarrow> f x s')"

text \<open>\<open>try: body except Exception as e: handler\<close>\<close>

definition try_except :: "'a cmd \<Rightarrow> (exn \<Rightarrow> 'a cmd) \<Rightarrow> 'a cmd" where
  "try_except body handler s =
     (case body s of (Inl e, s') \<Rightarrow> handler e s' | (Inr x, s') \<Rightarrow> (Inr x, s'))"

definition lift :: "exn + 'a \<Rightarrow> 'a cmd" where
  "lift r = (case r of Inl e \<Rightarrow> raise e | Inr x \<Rightarrow> ret x)"

definition emit :: "event \<Rightarrow> unit cmd" where
  "emit ev s = (Inr (), s\<lparr>trace := trace s @ [ev]\<rparr>)"

text \<open>A call to a collaborator: the call is made, then it returns or raises.\<close>

definition call :: "event \<Rightarrow> exn + 'a \<Rightarrow> 'a cmd" where
  "call ev r = bnd (emit ev) (\<lambda>_. lift r)"

text \<open>
  \<open>self.console.print(x)\<close> and \<open>self.console.status(message)\<close>. A print that raises
  has written nothing.
\<close>

definition console_print :: "world \<Rightarrow> printable \<Rightarrow> unit cmd" where
  "console_print w x s =
     (case Console_print (rich_library w) (console s) x None (trace s) of
        Inl e \<Rightarrow> (Inl e, s)
      | Inr t \<Rightarrow> (Inr (), s\<lparr>trace := t\<rparr>))"

definition console_status :: "string \<Rightarrow> pyobj cmd" where
  "console_status message s =
     (case Console_status (console s) message (trace s) of (v, t) \<Rightarrow> (Inr v, s\<lparr>trace := t\<rparr>))"

text \<open>
  \<open>with ctx: body\<close>. The context expression is evaluated first; a value that is no
  context manager, such as \<open>None\<close>, raises before the body runs (TypeError since
  Python 3.11).
\<close>

definition with_stmt :: "pyobj cmd \<Rightarrow> 'a cmd \<Rightarrow> 'a cmd" where
  "with_stmt ctx body =
     bnd ctx (\<lambda>v. case v of
                     NoneObj \<Rightarrow> raise (TypeError ''NoneType object does not support the context manager protocol'')
                   | ContextManager \<Rightarrow> body)"

text \<open>\<open>self.config['db']\<close> and \<open>self.config['wine_path']\<close>\<close>

definition config_db :: "store cmd" where
  "config_db s = (if db_handle s then (Inr (db s), s) else (Inl (KeyError ''db''), s))"

definition config_wine_path :: "string cmd" where
  "config_wine_path s =
     (case wine_path s of None \<Rightarrow> (Inl (KeyError ''wine_path''), s) | Some p \<Rightarrow> (Inr p, s))"

definition init_console :: "bool \<Rightarrow> unit cmd" where
  "init_console q s = (Inr (), s\<lparr>console := \<lparr>quiet = q\<rparr>\<rparr>)"

text \<open>\<open>self.heirloom.refresh_games_list()\<close> replaces the client's game list.\<close>

definition refresh_games_list :: "world \<Rightarrow> unit cmd" where
  "refresh_games_list w =
     bnd (call RefreshGamesList (heirloom_refresh_games_list w))
       (\<lambda>gs s. (Inr (), s\<lparr>games := gs\<rparr>))"

text \<open>\<open>refresh_game_installation_status(self.config['db'])\<close>\<close>

definition reconcile :: "world \<Rightarrow> unit cmd" where
  "reconcile w =
     bnd config_db (\<lambda>d s. (Inr (), s\<lparr>db := refresh_game_installation_status (disk_probe w) d\<rparr>))"

text \<open>
  One round of the loop of \<open>merge_game_data_with_db\<close>. The dictionaries of the game list
  are updated in place, so an exception in a later round keeps the earlier updates.
\<close>

definition merge_one :: "world \<Rightarrow> game \<Rightarrow> game cmd" where
  "merge_one w each_game =
     bnd config_db (\<lambda>d.
     bnd (lift (read_game_record d (Some (installer_uuid each_game)) None)) (\<lambda>record.
     bnd (if record = None
          then bnd (console_print w (Markup ('':exclamation: Unable to read game record for UUID [green]''
                      @ installer_uuid each_game @ ''[/green]!''))) (\<lambda>_.
               bnd config_db (\<lambda>d.
               bnd (lift (read_game_record d None (Some (game_name each_game)))) (\<lambda>record.
               bnd (if record = None
                    then console_print w (Markup ('':warning: Unable to read game record for game name [blue]''
                           @ game_name each_game @ ''[/blue]!''))
                    else ret ()) (\<lambda>_. ret record))))
          else ret record) (\<lambda>record.
     ret (case record of
            None \<Rightarrow> each_game
          | Some r \<Rightarrow> each_game\<lparr>install_dir := Some (rec_install_dir r),
                                  executable := Some (rec_executable r)\<rparr>))))"

fun merge_loop :: "world \<Rightarrow> game list \<Rightarrow> game list \<Rightarrow> unit cmd" where
  "merge_loop w seen [] = ret ()"
| "merge_loop w seen (g # gs) =
     bnd (merge_one w g) (\<lambda>g'.
     bnd (\<lambda>s. (Inr (), s\<lparr>games := seen @ [g'] @ gs\<rparr>)) (\<lambda>_.
     merge_loop w (seen @ [g']) gs))"

definition merge_game_data_with_db :: "world \<Rightarrow> unit cmd" where
  "merge_game_data_with_db w = (\<lambda>s. merge_loop w [] (games s) s)"

text \<open>The choices of the installed-only prompt: \<open>g['install_dir']\<close> raises on a missing key.\<close>

fun installed_names :: "game list \<Rightarrow> exn + string list" where
  "installed_names [] = Inr []"
| "installed_names (g # gs) =
     (case install_dir g of
        None \<Rightarrow> Inl (KeyError ''install_dir'')
      | Some d \<Rightarrow>
          (case installed_names gs of
             Inl e \<Rightarrow> Inl e
           | Inr ns \<Rightarrow> Inr (if d \<noteq> Some NOT_INSTALLED then game_name g # ns else ns)))"

text \<open>
  \<open>inquirer.select(message=..., choices=...).execute()\<close>: the answer is the choice at
  the position picked.
\<close>

definition select :: "world \<Rightarrow> string \<Rightarrow> string list \<Rightarrow> string cmd" where
  "select w message choices =
     bnd (emit (Select message choices)) (\<lambda>_.
     if choices = [] then raise (inquirer_no_choices w)
     else ret (choices ! (inquirer_select w message choices mod length choices)))"

definition select_from_games_list :: "world \<Rightarrow> bool \<Rightarrow> string cmd" where
  "select_from_games_list w installed_only =
     bnd (refresh_games_list w) (\<lambda>_ s.
       (if \<not> installed_only
        then select w ''Select a game: '' (map game_name (games s))
        else bnd (lift (installed_names (games s))) (select w ''Select a game: '')) s)"

definition login :: "world \<Rightarrow> bool \<Rightarrow> unit cmd" where
  "login w q =
     bnd (init_console q) (\<lambda>_.
     try_except
       (with_stmt (console_status ''Logging in to Legacy Games...'')
          (bnd (call HeirloomLogin (heirloom_login w)) (\<lambda>u s. (Inr (), s\<lparr>user_id := Some u\<rparr>))))
       (\<lambda>e. bnd (console_print w (Markup '':exclamation: Unable to log in to Legacy Games!'')) (\<lambda>_.
            bnd (console_print w (Exception e)) (\<lambda>_.
            raise e))))"

definition refresh :: "world \<Rightarrow> bool \<Rightarrow> unit cmd" where
  "refresh w q =
     bnd (login w q) (\<lambda>_.
     try_except
       (bnd (with_stmt (console_status ''Refreshing games list...'') (refresh_games_list w)) (\<lambda>_.
        bnd (with_stmt (console_status ''Initializing database...'')
               (\<lambda>s. (Inr (), s\<lparr>db := init_games_db (games s) (db s), db_handle := True\<rparr>))) (\<lambda>_.
        bnd (with_stmt (console_status ''Merging database into game data...'')
               (merge_game_data_with_db w)) (\<lambda>_.
        reconcile w))))
       (\<lambda>e. bnd (console_print w (Markup '':exclamation: Unable to refresh games list!'')) (\<lambda>_.
            bnd (console_print w (Exception e)) (\<lambda>_.
            raise e))))"

text \<open>\<open>self.heirloom.get_game_from_uuid(uuid)\<close> and \<open>self.heirloom.get_uuid_from_name(game)\<close>\<close>

definition get_game_from_uuid :: "world \<Rightarrow> string option \<Rightarrow> string option cmd" where
  "get_game_from_uuid w uuid = (\<lambda>s. lift (heirloom_get_game_from_uuid w (games s) uuid) s)"

definition get_uuid_from_name :: "world \<Rightarrow> string option \<Rightarrow> string option cmd" where
  "get_uuid_from_name w game = (\<lambda>s. lift (heirloom_get_uuid_from_name w (games s) game) s)"

subsection \<open>list\<close>

text \<open>
  The loop of \<open>list_games\<close>: a game is skipped when its record says installed and
  \<open>not_installed\<close> is set, or says not installed and \<open>installed\<close> is set; a game with
  no record is always kept.
\<close>

fun list_loop :: "bool \<Rightarrow> bool \<Rightarrow> game list \<Rightarrow> game list cmd" where
  "list_loop installed not_installed [] = ret []"
| "list_loop installed not_installed (g # gs) =
     bnd config_db (\<lambda>d.
     bnd (lift (read_game_record d None (Some (game_name g)))) (\<lambda>record.
     bnd (list_loop installed not_installed gs) (\<lambda>games_list.
     ret (case record of
            None \<Rightarrow> g # games_list
          | Some r \<Rightarrow>
              if rec_install_dir r \<noteq> Some NOT_INSTALLED
              then (if not_installed then games_list else g # games_list)
              else (if installed then games_list else g # games_list)))))"

text \<open>\<open>list_games\<close> after its call of \<open>refresh\<close>.\<close>

definition list_steps :: "world \<Rightarrow> bool \<Rightarrow> bool \<Rightarrow> bool \<Rightarrow> unit cmd" where
  "list_steps w installed not_installed json_output =
     (let both = installed \<and> not_installed;
          installed = (if both then False else installed);
          not_installed = (if both then False else not_installed)
      in bnd (reconcile w) (\<lambda>_.
         bnd (\<lambda>s. list_loop installed not_installed (games s) s) (\<lambda>games_list.
         if json_output then emit (StdoutJson games_list)
         else console_print w
                (Table (map (\<lambda>g. (game_name g, installer_uuid g, game_description g)) games_list)))))"

definition list_games :: "world \<Rightarrow> bool \<Rightarrow> bool \<Rightarrow> bool \<Rightarrow> bool \<Rightarrow> unit cmd" where
  "list_games w q installed not_installed json_output =
     bnd (refresh w q) (\<lambda>_. list_steps w installed not_installed json_output)"

subsection \<open>download\<close>

definition download_steps :: "world \<Rightarrow> string option \<Rightarrow> string option \<Rightarrow> unit cmd" where
  "download_steps w game uuid =
     bnd (if truthy uuid then get_game_from_uuid w uuid else ret game) (\<lambda>game.
     bnd (if \<not> truthy game then bnd (select_from_games_list w False) (\<lambda>g. ret (Some g))
          else ret game) (\<lambda>game.
     bnd (call (DownloadGame game) (heirloom_download_game w game)) (\<lambda>fn.
     console_print w (Markup (''Successfully downloaded [bold blue]'' @ fmt game
        @ ''[/bold blue] setup executable as [green]'' @ fn @ ''[/green]'')))))"

definition download_game :: "world \<Rightarrow> bool \<Rightarrow> string option \<Rightarrow> string option \<Rightarrow> unit cmd" where
  "download_game w q game uuid = bnd (refresh w q) (\<lambda>_. download_steps w game uuid)"

subsection \<open>install\<close>

text \<open>
  The names bound at the top level of the module, and the read of a name that is no
  local of the function reading it: a module name (all of them truthy objects), else a
  name bound by a star import, else NameError (no builtin is called \<open>quiet\<close>).
\<close>

definition module_names :: "string list" where
  "module_names = [''os'', ''json'', ''shutil'', ''subprocess'', ''Enum'', ''rich'', ''typer'',
     ''inquirer'', ''Annotated'', ''Heirloom'', ''Console'', ''InstallationMethod'',
     ''HeirloomManager'', ''main'']"

definition load_global :: "world \<Rightarrow> string \<Rightarrow> bool cmd" where
  "load_global w n =
     (if n \<in> set module_names then ret True
      else (case star_import w n of Some b \<Rightarrow> ret b | None \<Rightarrow> raise (NameError n)))"

text \<open>
  \<open>while not self.config.get('base_install_dir'): ... = input(...)\<close>. Each round prompts
  and reads one line; \<open>input\<close> raises EOFError when standard input is exhausted.
\<close>

fun input_loop :: "string option \<Rightarrow> string list \<Rightarrow> event list
    \<Rightarrow> (exn + string) \<times> string option \<times> string list \<times> event list" where
  "input_loop (Some (c # cs)) ins t = (Inr (c # cs), Some (c # cs), ins, t)"
| "input_loop cur [] t = (Inl EOFError, cur, [], t @ [InputPrompt ''Enter base installation folder: ''])"
| "input_loop cur (l # ls) t =
     input_loop (Some l) ls (t @ [InputPrompt ''Enter base installation folder: ''])"

definition ask_base_install_dir :: "string cmd" where
  "ask_base_install_dir s =
     (case input_loop (base_install_dir s) (stdin s) (trace s) of
        (r, b, i, t) \<Rightarrow> (r, s\<lparr>base_install_dir := b, stdin := i, trace := t\<rparr>))"

text \<open>Lines 187 to 199 of \<open>install_game\<close>: the name and the uuid it goes on with.\<close>

definition install_prepare :: "world \<Rightarrow> string option \<Rightarrow> string option
    \<Rightarrow> (string option \<times> string option) cmd" where
  "install_prepare w game uuid =
     bnd (reconcile w) (\<lambda>_.
     bnd (merge_game_data_with_db w) (\<lambda>_.
     bnd ask_base_install_dir (\<lambda>base.
     bnd (if \<not> os_path_isdir w (os_path_expanduser w base)
          then call (MakeDirs (os_path_expanduser w base)) (os_makedirs w (os_path_expanduser w base))
          else ret ()) (\<lambda>_.
     bnd (if \<not> truthy game \<and> \<not> truthy uuid
          then bnd (select_from_games_list w False) (\<lambda>g.
               bnd (get_uuid_from_name w (Some g)) (\<lambda>u. ret (Some g, u)))
          else ret (game, uuid)) (\<lambda>(game, uuid).
     bnd (if truthy uuid \<and> \<not> truthy game
          then bnd (get_game_from_uuid w uuid) (\<lambda>g. ret (g, uuid))
          else ret (game, uuid)) (\<lambda>(game, uuid).
     if truthy game \<and> \<not> truthy uuid
     then bnd (get_uuid_from_name w game) (\<lambda>u. ret (game, u))
     else ret (game, uuid)))))))"

text \<open>
  \<open>f'{result.get("install_path")}\\{executable_file}'\<close>: the install path, a
  backslash, the file name.
\<close>

definition executable_path :: "string option \<Rightarrow> string \<Rightarrow> string" where
  "executable_path path executable_file = fmt path @ [CHR 0x5C] @ executable_file"

text \<open>
  Lines 206 to 215: the executable path to record. With no candidate neither branch
  runs and the local \<open>answer\<close> stays unbound (\<open>None\<close> here).
\<close>

definition resolve_executable :: "world \<Rightarrow> outcome \<Rightarrow> string option cmd" where
  "resolve_executable w result =
     (case executable_files result of
        Some [f] \<Rightarrow>
          bnd config_wine_path (\<lambda>wp.
          bnd (console_print w (Markup (''To start game, run: [yellow]'' @ wp @ '' '' @ [CHR 0x27]
                 @ executable_path (get_install_path result) (last_component f) @ [CHR 0x27]))) (\<lambda>_.
          ret (Some (executable_path (get_install_path result) (last_component f)))))
      | Some (f # f' # fs) \<Rightarrow>
          bnd (console_print w (Markup '':exclamation: Ambiguous executable detected!'')) (\<lambda>_.
          bnd (select w ''Select the executable used to launch the game: '' (f # f' # fs)) (\<lambda>answer.
          bnd config_wine_path (\<lambda>wp.
          bnd (console_print w (Markup (''To start game, run: [yellow]'' @ wp @ '' '' @ [CHR 0x27]
                 @ executable_path (get_install_path result) (last_component answer) @ [CHR 0x27]))) (\<lambda>_.
          ret (Some (executable_path (get_install_path result) (last_component answer)))))))
      | _ \<Rightarrow> ret None)"

text \<open>
  Lines 204 to 219: what \<open>install_game\<close> does with the backend's result. The arguments
  of \<open>write_game_record\<close> are evaluated in order before the call, so an unbound
  \<open>answer\<close> raises and nothing is written.
\<close>

definition install_commit :: "world \<Rightarrow> string option \<Rightarrow> string option \<Rightarrow> outcome \<Rightarrow> unit cmd" where
  "install_commit w game uuid result =
     (if status result = Some ''success''
      then
        bnd (lift (case install_path result of
                     None \<Rightarrow> Inl (KeyError ''install_path'') | Some p \<Rightarrow> Inr p)) (\<lambda>path.
        bnd (console_print w (Markup (''Installation to [green]'' @ fmt path
               @ ''[/green] successful! :grin:''))) (\<lambda>_.
        bnd (resolve_executable w result) (\<lambda>answer.
        bnd config_db (\<lambda>d.
        bnd (lift (case answer of
                     None \<Rightarrow> Inl (UnboundLocalError ''answer'') | Some a \<Rightarrow> Inr a)) (\<lambda>a s.
        (Inr (), s\<lparr>db := write_game_record d game uuid path a\<rparr>))))))
      else
        bnd (console_print w (Result result)) (\<lambda>_.
        console_print w (Markup
          ''[bold]Installation was [red italic]unsuccessful[/red italic]! :frowning:'')))"

text \<open>Lines 200 to 219: the backend is called, then its result is handled.\<close>

definition install_run :: "world \<Rightarrow> string option \<Rightarrow> string option
    \<Rightarrow> InstallationMethod option \<Rightarrow> unit cmd" where
  "install_run w game uuid install_method =
     bnd (call (InstallGame game (map_option method_value install_method))
            (heirloom_install_game w game (map_option method_value install_method)))
       (install_commit w game uuid)"

text \<open>\<open>install_game\<close> after its call of \<open>refresh\<close>.\<close>

definition install_steps :: "world \<Rightarrow> string option \<Rightarrow> string option
    \<Rightarrow> InstallationMethod option \<Rightarrow> unit cmd" where
  "install_steps w game uuid install_method =
     bnd (install_prepare w game uuid) (\<lambda>(game, uuid). install_run w game uuid install_method)"

text \<open>
  \<open>install_game\<close> has the parameters \<open>game\<close>, \<open>uuid\<close> and \<open>install_method\<close> and never
  assigns \<open>quiet\<close>: the argument of \<open>self.refresh(quiet)\<close> is a global read, evaluated
  before the call.
\<close>

definition install_game :: "world \<Rightarrow> string option \<Rightarrow> string option
    \<Rightarrow> InstallationMethod option \<Rightarrow> unit cmd" where
  "install_game w game uuid install_method =
     bnd (load_global w ''quiet'') (\<lambda>q.
     bnd (refresh w q) (\<lambda>_.
     install_steps w game uuid install_method))"

subsection \<open>info\<close>

definition info_steps :: "world \<Rightarrow> string option \<Rightarrow> string option \<Rightarrow> unit cmd" where
  "info_steps w game uuid =
     bnd (merge_game_data_with_db w) (\<lambda>_.
     bnd (if truthy uuid then get_game_from_uuid w uuid else ret game) (\<lambda>game.
     bnd (if \<not> truthy game then bnd (select_from_games_list w False) (\<lambda>g. ret (Some g))
          else ret game) (\<lambda>game.
     bnd (\<lambda>s. lift (heirloom_dump_game_data w (games s) game) s) (\<lambda>data.
     emit (Stdout data)))))"

definition info :: "world \<Rightarrow> bool \<Rightarrow> string option \<Rightarrow> string option \<Rightarrow> unit cmd" where
  "info w q game uuid = bnd (refresh w q) (\<lambda>_. info_steps w game uuid)"

subsection \<open>uninstall\<close>

text \<open>Lines 254 to 259: what \<open>uninstall\<close> does with the backend's result.\<close>

definition uninstall_commit :: "world \<Rightarrow> string option \<Rightarrow> string option \<Rightarrow> outcome \<Rightarrow> unit cmd" where
  "uninstall_commit w game uuid result =
     (if status result = Some ''success''
      then
        bnd (console_print w (Markup (''Uninstallation of '' @ fmt game @ '' successful! :grin:''))) (\<lambda>_.
        bnd config_db (\<lambda>d s.
        (Inr (), s\<lparr>db := delete_game_record d uuid\<rparr>)))
      else
        bnd (console_print w (Result result)) (\<lambda>_.
        console_print w (Markup
          ''[bold]Uninstallation was [red italic]unsuccessful[/red italic]! :frowning:'')))"

text \<open>
  \<open>uninstall\<close> after its call of \<open>refresh\<close>. The name is resolved from the uuid or
  chosen at the prompt; the uuid stays the one the command was called with.
\<close>

definition uninstall_steps :: "world \<Rightarrow> string option \<Rightarrow> string option \<Rightarrow> unit cmd" where
  "uninstall_steps w game uuid =
     bnd (reconcile w) (\<lambda>_.
     bnd (if truthy uuid then get_game_from_uuid w uuid else ret game) (\<lambda>game.
     bnd (if \<not> truthy game then bnd (select_from_games_list w True) (\<lambda>g. ret (Some g))
          else ret game) (\<lambda>game.
     bnd (call (UninstallGame game) (heirloom_uninstall_game w game)) (\<lambda>result.
     uninstall_commit w game uuid result))))"

definition uninstall :: "world \<Rightarrow> bool \<Rightarrow> string option \<Rightarrow> string option \<Rightarrow> unit cmd" where
  "uninstall w q game uuid = bnd (refresh w q) (\<lambda>_. uninstall_steps w game uuid)"

subsection \<open>launch\<close>

definition launch_steps :: "world \<Rightarrow> string option \<Rightarrow> string option \<Rightarrow> unit cmd" where
  "launch_steps w game uuid =
     bnd (if \<not> truthy game then bnd (select_from_games_list w True) (\<lambda>g. ret (Some g))
          else ret game) (\<lambda>game.
     bnd (if truthy uuid then bnd (get_game_from_uuid w uuid) (\<lambda>g. ret (g, uuid))
          else bnd (get_uuid_from_name w game) (\<lambda>u. ret (game, u))) (\<lambda>(game, uuid).
     bnd config_db (\<lambda>d.
     bnd (lift (read_game_record d uuid None)) (\<lambda>record.
     bnd config_wine_path (\<lambda>wp.
     bnd (lift (case record of
                  None \<Rightarrow> Inl (TypeError ''NoneType object is not subscriptable'')
                | Some r \<Rightarrow> Inr (rec_executable r))) (\<lambda>exe.
     with_stmt (console_status (''Running: [yellow]'' @ wp @ '' '' @ [CHR 0x27] @ exe @ [CHR 0x27]
                  @ ''[/yellow]''))
       (bnd (call (Run [wp, [CHR 0x27] @ exe @ [CHR 0x27]])
               (subprocess_run w [wp, [CHR 0x27] @ exe @ [CHR 0x27]])) (\<lambda>out.
        console_print w (Markup out)))))))))"

definition launch :: "world \<Rightarrow> bool \<Rightarrow> string option \<Rightarrow> string option \<Rightarrow> unit cmd" where
  "launch w q game uuid = bnd (refresh w q) (\<lambda>_. launch_steps w game uuid)"

section \<open>Concrete inputs\<close>

text \<open>
  One catalog entry, a store holding its placeholder record, collaborators that
  succeed, a rich library that rejects whatever is not certainly accepted, and a user
  who picks the second choice; the variants change what the backends report.
\<close>

definition demo_game :: game where
  "demo_game = \<lparr>game_name = ''Game'', installer_uuid = ''u1'', game_description = ''A game'',
     install_dir = None, executable = None\<rparr>"

definition demo_world :: world where
  "demo_world = \<lparr>
     star_import = (\<lambda>_. None),
     rich_library = \<lparr>markup_error = (\<lambda>_. True), style_error = (\<lambda>_. True)\<rparr>,
     heirloom_login = Inr ''user'',
     heirloom_refresh_games_list = Inr [demo_game],
     heirloom_get_game_from_uuid = (\<lambda>gs u. Inr (Some ''Game'')),
     heirloom_get_uuid_from_name = (\<lambda>gs n. Inr (Some ''u1'')),
     heirloom_download_game = (\<lambda>g. Inr ''setup.exe''),
     heirloom_install_game = (\<lambda>g m. Inr \<lparr>status = Some ''success'',
        install_path = Some (Some ''C:/Games/Game''), executable_files = Some [''bin/Game.exe'']\<rparr>),
     heirloom_uninstall_game = (\<lambda>g. Inr \<lparr>status = Some ''success'',
        install_path = None, executable_files = None\<rparr>),
     heirloom_dump_game_data = (\<lambda>gs g. Inr ''{}''),
     inquirer_select = (\<lambda>m cs. 1),
     inquirer_no_choices = Raised ''InvalidArgument'',
     disk_probe = (\<lambda>p. True),
     os_path_expanduser = (\<lambda>p. p),
     os_path_isdir = (\<lambda>p. True),
     os_makedirs = (\<lambda>p. Inr ()),
     subprocess_run = (\<lambda>c. Inr [])\<rparr>"

definition demo_manager :: manager where
  "demo_manager = \<lparr>
     console = \<lparr>quiet = True\<rparr>,
     user_id = None,
     base_install_dir = Some ''C:/Games'',
     wine_path = Some ''wine'',
     db_handle = True,
     db = [\<lparr>rec_uuid = Some ''u1'', rec_name = Some ''Game'',
            rec_install_dir = Some NOT_INSTALLED, rec_executable = NOT_INSTALLED\<rparr>],
     games = [demo_game],
     stdin = [],
     trace = []\<rparr>"

definition loud_manager :: manager where
  "loud_manager = demo_manager\<lparr>console := \<lparr>quiet = False\<rparr>\<rparr>"

definition failed :: outcome where
  "failed = \<lparr>status = Some ''failed'', install_path = None, executable_files = None\<rparr>"

definition failing_world :: world where
  "failing_world = demo_world\<lparr>heirloom_install_game := (\<lambda>g m. Inr failed),
     heirloom_uninstall_game := (\<lambda>g. Inr failed)\<rparr>"

definition no_candidates :: outcome where
  "no_candidates = \<lparr>status = Some ''success'', install_path = Some (Some ''C:/Games/Game''),
     executable_files = Some []\<rparr>"

definition no_candidates_world :: world where
  "no_candidates_world = demo_world\<lparr>heirloom_install_game := (\<lambda>g m. Inr no_candidates)\<rparr>"

definition two_candidates :: outcome where
  "two_candidates = \<lparr>status = Some ''success'', install_path = Some (Some ''C:/Games/Game''),
     executable_files = Some [''A/Game.exe'', ''B/Game2.exe'']\<rparr>"

definition two_candidates_world :: world where
  "two_candidates_world = demo_world\<lparr>heirloom_install_game := (\<lambda>g m. Inr two_candidates)\<rparr>"

section \<open>Properties\<close>

lemmas cmd_defs = bnd_def ret_def raise_def lift_def emit_def call_def try_except_def
  console_status_def with_stmt_def init_console_def

lemma wt1: "well_tagged '':exclamation: Unable to log in to Legacy Games!''"
  by (simp add: well_tagged_def)

lemma wt2: "well_tagged ''[bold]Installation was [red italic]unsuccessful[/red italic]! :frowning:''"
  by (simp add: well_tagged_def close_tag_def style_words_def)



lemma wt5: "\<not> well_tagged ''Uninstallation of [/b] successful! :grin:''"
  by (simp add: well_tagged_def close_tag_def style_words_def)

text \<open>
  A print can raise: with a console that is not quiet and a title named \<open>[/b]\<close>, the
  success line of \<open>uninstall\<close> is refused as markup and nothing is deleted.
\<close>

lemma uninstall_commit_markup_error:
  "uninstall_commit demo_world (Some ''[/b]'') (Some ''u1'')
      \<lparr>status = Some ''success'', install_path = None, executable_files = None\<rparr> loud_manager
     = (Inl (Raised ''MarkupError''), loud_manager)"
  by (simp add: uninstall_commit_def bnd_def console_print_def Console_print_def rich_print_def
      MarkupError_raised_def wt5 fmt_def demo_world_def loud_manager_def demo_manager_def)

lemma console_print_object:
  "(\<And>m. x \<noteq> Markup m) \<Longrightarrow>
   console_print w x s =
     (Inr (), s\<lparr>trace := (if quiet (console s) then trace s else trace s @ [RichPrint x None])\<rparr>)"
  by (cases x) (auto simp add: console_print_def Console_print_def rich_print_def style_check_def)

lemma console_print_well_tagged:
  "well_tagged m \<Longrightarrow>
   console_print w (Markup m) s =
     (Inr (), s\<lparr>trace := (if quiet (console s) then trace s
                           else trace s @ [RichPrint (Markup m) None])\<rparr>)"
  by (simp add: console_print_def Console_print_def rich_print_def style_check_def
      MarkupError_raised_def)

lemma db_bnd:
  assumes "\<And>s. db (snd (m s)) = db s" and "\<And>x s. db (snd (f x s)) = db s"
  shows "db (snd (bnd m f s)) = db s"
proof (cases "m s")
  case (Pair r s')
  have "db s' = db s" using assms(1)[of s] Pair by simp
  then show ?thesis using Pair assms(2) by (cases r) (simp_all add: bnd_def)
qed

lemma db_ret [simp]: "db (snd (ret x s)) = db s"
  by (simp add: ret_def)

lemma db_raise [simp]: "db (snd (raise e s)) = db s"
  by (simp add: raise_def)

lemma db_lift [simp]: "db (snd (lift r s)) = db s"
  by (cases r) (simp_all add: lift_def)

lemma db_emit [simp]: "db (snd (emit ev s)) = db s"
  by (simp add: emit_def)

lemma db_call [simp]: "db (snd (call ev r s)) = db s"
  unfolding call_def by (rule db_bnd) simp_all

lemma db_console_print [simp]: "db (snd (console_print w x s)) = db s"
  by (simp add: console_print_def split: sum.splits)

lemma db_config_db [simp]: "db (snd (config_db s)) = db s"
  by (simp add: config_db_def)

lemma db_config_wine_path [simp]: "db (snd (config_wine_path s)) = db s"
  by (simp add: config_wine_path_def split: option.splits)

lemma db_select [simp]: "db (snd (select w m cs s)) = db s"
  unfolding select_def by (rule db_bnd) simp_all

lemma db_merge_one: "db (snd (merge_one w g s)) = db s"
  unfolding merge_one_def
  by (intro db_bnd) (simp_all add: db_bnd)

lemma db_merge_loop: "db (snd (merge_loop w seen gs s)) = db s"
proof (induction gs arbitrary: seen s)
  case Nil
  then show ?case by simp
next
  case (Cons g gs)
  show ?case
    unfolding merge_loop.simps
    by (intro db_bnd) (simp_all add: db_merge_one Cons.IH)
qed

lemma db_refresh_games_list [simp]: "db (snd (refresh_games_list w s)) = db s"
  unfolding refresh_games_list_def by (rule db_bnd) simp_all

lemma db_select_from_games_list [simp]: "db (snd (select_from_games_list w b s)) = db s"
  unfolding select_from_games_list_def
  by (rule db_bnd) (simp_all add: db_bnd)

lemma db_get_game_from_uuid [simp]: "db (snd (get_game_from_uuid w u s)) = db s"
  by (simp add: get_game_from_uuid_def)

lemma db_get_uuid_from_name [simp]: "db (snd (get_uuid_from_name w u s)) = db s"
  by (simp add: get_uuid_from_name_def)

lemma db_merge_game_data_with_db [simp]: "db (snd (merge_game_data_with_db w s)) = db s"
  by (simp add: merge_game_data_with_db_def db_merge_loop)

lemma db_ask_base_install_dir [simp]: "db (snd (ask_base_install_dir s)) = db s"
  by (simp add: ask_base_install_dir_def split: prod.splits)

lemma reconcile_eq:
  "reconcile w s =
     (if db_handle s
      then (Inr (), s\<lparr>db := refresh_game_installation_status (disk_probe w) (db s)\<rparr>)
      else (Inl (KeyError ''db''), s))"
  by (simp add: reconcile_def config_db_def bnd_def)

lemma db_bnd_after:
  assumes "\<And>x s. db (snd (f x s)) = db s"
  shows "db (snd (bnd m f s)) = db (snd (m s))"
proof (cases "m s")
  case (Pair r s')
  then show ?thesis using assms by (cases r) (simp_all add: bnd_def)
qed

lemma db_install_prepare:
  "db (snd (install_prepare w game uuid s)) =
     (if db_handle s then refresh_game_installation_status (disk_probe w) (db s) else db s)"
proof -
  have "db (snd (install_prepare w game uuid s)) = db (snd (reconcile w s))"
    unfolding install_prepare_def
    by (rule db_bnd_after) (intro db_bnd; simp add: db_bnd split: prod.splits)
  then show ?thesis by (simp add: reconcile_eq)
qed

lemma install_prepare_handle:
  "install_prepare w game uuid s = (Inr x, s') \<Longrightarrow> db_handle s"
  unfolding install_prepare_def
  by (subst (asm) bnd_def) (simp add: reconcile_eq split: if_splits)

lemma install_commit_failure:
  "status result \<noteq> Some ''success'' \<Longrightarrow>
   install_commit w game uuid result s =
     (Inr (), s\<lparr>trace :=
        (if quiet (console s) then trace s
         else trace s @ [RichPrint (Result result) None,
                RichPrint (Markup ''[bold]Installation was [red italic]unsuccessful[/red italic]! :frowning:'') None])\<rparr>)"
  by (simp add: install_commit_def bnd_def console_print_object console_print_well_tagged wt2)

lemma install_run_failure:
  "heirloom_install_game w game (map_option method_value m) = Inr result \<Longrightarrow>
   status result \<noteq> Some ''success'' \<Longrightarrow>
   install_run w game uuid m s =
     (Inr (), s\<lparr>trace := trace s @ [InstallGame game (map_option method_value m)] @
        (if quiet (console s) then []
         else [RichPrint (Result result) None,
               RichPrint (Markup ''[bold]Installation was [red italic]unsuccessful[/red italic]! :frowning:'') None])\<rparr>)"
  by (simp add: install_run_def install_commit_failure cmd_defs)

lemma login_raises:
  "login w q s =
     (Inl (TypeError ''NoneType object does not support the context manager protocol''),
      s\<lparr>console := \<lparr>quiet = q\<rparr>,
        trace := trace s @
          (if q then []
           else [RichStatus ''Logging in to Legacy Games...'',
                 RichPrint (Markup '':exclamation: Unable to log in to Legacy Games!'') None,
                 RichPrint (Exception (TypeError ''NoneType object does not support the context manager protocol'')) None])\<rparr>)"
  by (simp add: login_def cmd_defs Console_status_def console_print_object
      console_print_well_tagged wt1)

lemma refresh_login:
  "refresh w q s = login w q s"
  by (simp add: refresh_def bnd_def login_raises)

lemma db_install_game:
  "db (snd (install_game w game uuid m s)) = db s"
  by (simp add: install_game_def load_global_def bnd_def ret_def raise_def refresh_login
      login_raises split: option.splits)

lemmas demo_defs = demo_world_def demo_manager_def demo_game_def failed_def loud_manager_def
  no_candidates_def two_candidates_def

lemmas world_defs = failing_world_def no_candidates_world_def two_candidates_world_def

lemmas run_defs = cmd_defs install_steps_def install_prepare_def install_run_def install_commit_def
  resolve_executable_def reconcile_def config_db_def config_wine_path_def
  merge_game_data_with_db_def merge_one_def read_game_record_def write_game_record_def
  delete_game_record_def refresh_game_installation_status_def ask_base_install_dir_def
  select_def select_from_games_list_def refresh_games_list_def get_game_from_uuid_def
  get_uuid_from_name_def uninstall_steps_def uninstall_commit_def truthy_def fmt_def
  executable_path_def get_install_path_def last_component_def NOT_INSTALLED_def
  console_print_def Console_print_def rich_print_def style_check_def MarkupError_raised_def

text \<open>
  C10. A Console constructed with quiet=True produces no console output from any of its
  output methods (print, status, log, warn, error, success), whatever the arguments:
  the output sequence after the call is the one before it, and nothing is raised.
\<close>

theorem quiet_console_is_silent:
  "Console_print r \<lparr>quiet = True\<rparr> x style t = Inr t
   \<and> snd (Console_status \<lparr>quiet = True\<rparr> message t) = t
   \<and> Console_log r \<lparr>quiet = True\<rparr> text lstyle t = Inr t
   \<and> Console_warn r \<lparr>quiet = True\<rparr> text t = Inr t
   \<and> Console_error r \<lparr>quiet = True\<rparr> text t = Inr t
   \<and> Console_success r \<lparr>quiet = True\<rparr> text t = Inr t"
  by (simp add: Console_print_def Console_status_def Console_log_def Console_warn_def
      Console_error_def Console_success_def)

text \<open>
  C1. If the install backend reports failure (the status of its result is not
  'success'), the install operation commits nothing to the Record Store. Lines 200 to
  219 leave the store as it was in whatever state they start; over the whole of
  \<open>install_game\<close> after its refresh the store is the one the reconciliation pass at
  the start of the command produced, and the command as a whole leaves the store as it
  found it.
\<close>

theorem install_failure_commits_nothing:
  assumes "install_prepare w game uuid s = (Inr (g, u), s')"
      and "heirloom_install_game w g (map_option method_value m) = Inr result"
      and "status result \<noteq> Some ''success''"
  shows "db (snd (install_run w g u m t)) = db t
       \<and> fst (install_steps w game uuid m s) = Inr ()
       \<and> db (snd (install_steps w game uuid m s)) =
           refresh_game_installation_status (disk_probe w) (db s)
       \<and> db (snd (install_game w game uuid m s)) = db s"
proof -
  have run: "db (snd (install_run w g u m t)) = db t" for t
    using assms(2,3) by (simp add: install_run_failure)
  have steps: "install_steps w game uuid m s = install_run w g u m s'"
    using assms(1) by (simp add: install_steps_def bnd_def)
  have "db s' = db (snd (install_prepare w game uuid s))"
    using assms(1) by simp
  also have "\<dots> = refresh_game_installation_status (disk_probe w) (db s)"
    using install_prepare_handle[OF assms(1)] by (simp add: db_install_prepare)
  finally have prep: "db s' = refresh_game_installation_status (disk_probe w) (db s)" .
  have "fst (install_steps w game uuid m s) = Inr ()"
    using assms(2,3) by (simp add: steps install_run_failure)
  moreover have "db (snd (install_steps w game uuid m s)) =
      refresh_game_installation_status (disk_probe w) (db s)"
    by (simp add: steps run prep)
  ultimately show ?thesis using run by (simp add: db_install_game)
qed

theorem install_failure_commits_nothing_witness:
  "db (snd (install_run failing_world (Some ''Game'') (Some ''u1'') None demo_manager)) = db demo_manager
   \<and> fst (install_steps failing_world (Some ''Game'') (Some ''u1'') None demo_manager) = Inr ()
   \<and> db (snd (install_steps failing_world (Some ''Game'') (Some ''u1'') None demo_manager)) = db demo_manager"
proof -
  have h1: "install_prepare failing_world (Some ''Game'') (Some ''u1'') demo_manager =
      (Inr (Some ''Game'', Some ''u1''),
       demo_manager\<lparr>games := [demo_game\<lparr>install_dir := Some (Some NOT_INSTALLED),
                                          executable := Some NOT_INSTALLED\<rparr>]\<rparr>)"
    by (simp add: world_defs demo_defs run_defs)
  have h2: "heirloom_install_game failing_world (Some ''Game'') (map_option method_value None) = Inr failed"
    by (simp add: world_defs demo_defs)
  have h3: "status failed \<noteq> Some ''success''"
    by (simp add: failed_def)
  have r: "refresh_game_installation_status (disk_probe failing_world) (db demo_manager) = db demo_manager"
    by (simp add: world_defs demo_defs refresh_game_installation_status_def)
  show ?thesis
    using install_failure_commits_nothing[OF h1 h2 h3, where t = demo_manager] r by simp
qed

text \<open>
  C7 (the code departs from the claim). Every lifecycle command should refresh the
  catalog and reconcile before anything else. \<open>install_game\<close> raises NameError while
  evaluating the argument of \<open>self.refresh(quiet)\<close>: refresh is never called, no event
  happens and the store is not reconciled.
\<close>

theorem install_game_skips_refresh:
  "fst (install_game demo_world (Some ''Game'') None None demo_manager) = Inl (NameError ''quiet'')
   \<and> trace (snd (install_game demo_world (Some ''Game'') None None demo_manager)) = []
   \<and> db (snd (install_game demo_world (Some ''Game'') None None demo_manager)) = db demo_manager"
  by (simp add: install_game_def load_global_def module_names_def bnd_def raise_def demo_defs)

text \<open>
  C8. \<open>install_game\<close> declares no parameter or local named \<open>quiet\<close>; unless a star
  import binds that name, every invocation raises NameError at \<open>self.refresh(quiet)\<close>
  with the manager untouched: no store access, no backend call, no output.
\<close>

theorem install_game_name_error:
  assumes "star_import w ''quiet'' = None"
  shows "install_game w game uuid install_method s = (Inl (NameError ''quiet''), s)"
  using assms by (simp add: install_game_def load_global_def module_names_def bnd_def raise_def)

theorem install_game_name_error_witness:
  "install_game demo_world (Some ''Game'') (Some ''u1'') (Some wine) demo_manager
     = (Inl (NameError ''quiet''), demo_manager)"
proof -
  have h: "star_import demo_world ''quiet'' = None"
    by (simp add: demo_world_def)
  show ?thesis
    using install_game_name_error[OF h] by simp
qed

text \<open>
  C9. \<open>Console.status\<close> returns \<open>None\<close> for every message and every quiet setting.
  So \<open>login\<close> raises the TypeError of its \<open>with\<close> statement without calling the
  client's login (only the status line and the two lines of the handler are printed,
  and nothing when quiet); \<open>refresh\<close>, which starts with \<open>login\<close>, ends the same
  way, and so does every command that starts with \<open>refresh\<close>.
\<close>

theorem console_status_none_breaks_with:
  "fst (Console_status c message t) = NoneObj
   \<and> login w q s =
       (Inl (TypeError ''NoneType object does not support the context manager protocol''),
        s\<lparr>console := \<lparr>quiet = q\<rparr>,
          trace := trace s @
            (if q then []
             else [RichStatus ''Logging in to Legacy Games...'',
                   RichPrint (Markup '':exclamation: Unable to log in to Legacy Games!'') None,
                   RichPrint (Exception (TypeError
                     ''NoneType object does not support the context manager protocol'')) None])\<rparr>)
   \<and> refresh w q s = login w q s
   \<and> list_games w q installed not_installed json_output s = login w q s
   \<and> download_game w q game uuid s = login w q s
   \<and> info w q game uuid s = login w q s
   \<and> uninstall w q game uuid s = login w q s
   \<and> launch w q game uuid s = login w q s"
  by (simp add: Console_status_def login_raises refresh_login list_games_def download_game_def
      info_def uninstall_def launch_def bnd_def)

lemma list_loop_unfiltered:
  "db_handle s \<Longrightarrow> list_loop False False gs s = (Inr gs, s)"
  by (induction gs)
     (simp_all add: bnd_def ret_def raise_def lift_def config_db_def read_game_record_def
        split: option.splits)

text \<open>
  C6. If both the installed-only and the not-installed-only filter are requested, the
  list command behaves exactly as if neither were: the whole command and its steps
  after refresh are equal to the unfiltered ones, and (once the store is open) every
  game of the catalog is listed, in order.
\<close>

theorem list_both_filters_as_neither:
  "list_games w q True True json_output s = list_games w q False False json_output s
   \<and> list_steps w True True json_output s = list_steps w False False json_output s
   \<and> (db_handle s \<longrightarrow>
        list_steps w True True json_output s =
          (Inr (), s\<lparr>db := refresh_game_installation_status (disk_probe w) (db s),
                     trace := (if json_output then trace s @ [StdoutJson (games s)]
                               else if quiet (console s) then trace s
                               else trace s @ [RichPrint
                                 (Table (map (\<lambda>g. (game_name g, installer_uuid g, game_description g))
                                    (games s))) None])\<rparr>))"
proof -
  have steps: "list_steps w True True json_output = list_steps w False False json_output"
    by (simp add: list_steps_def)
  have all: "list_steps w True True json_output s =
       (Inr (), s\<lparr>db := refresh_game_installation_status (disk_probe w) (db s),
                  trace := (if json_output then trace s @ [StdoutJson (games s)]
                            else if quiet (console s) then trace s
                            else trace s @ [RichPrint
                              (Table (map (\<lambda>g. (game_name g, installer_uuid g, game_description g))
                                 (games s))) None])\<rparr>)"
    if "db_handle s"
    using that
    by (simp add: list_steps_def reconcile_eq bnd_def list_loop_unfiltered emit_def
        console_print_object)
  show ?thesis
    using all by (simp add: list_games_def steps)
qed

theorem list_both_filters_as_neither_witness:
  "list_steps demo_world True True True demo_manager =
     (Inr (), demo_manager\<lparr>trace := [StdoutJson [demo_game]]\<rparr>)"
proof -
  have h: "db_handle demo_manager"
    by (simp add: demo_manager_def)
  have "list_steps demo_world True True True demo_manager =
      (Inr (), demo_manager\<lparr>db := refresh_game_installation_status (disk_probe demo_world)
                                      (db demo_manager),
                 trace := (if True then trace demo_manager @ [StdoutJson (games demo_manager)]
                           else if quiet (console demo_manager) then trace demo_manager
                           else trace demo_manager @ [RichPrint
                             (Table (map (\<lambda>g. (game_name g, installer_uuid g, game_description g))
                                (games demo_manager))) None])\<rparr>)"
    using list_both_filters_as_neither[where w = demo_world and q = True and json_output = True
        and s = demo_manager] h
    by blast
  then show ?thesis
    by (simp add: demo_defs refresh_game_installation_status_def)
qed

text \<open>
  A single filter does filter: the placeholder record of the only game is not
  installed, so installed-only lists nothing.
\<close>

lemma list_installed_filter_drops:
  "list_steps demo_world True False True demo_manager =
     (Inr (), demo_manager\<lparr>trace := [StdoutJson []]\<rparr>)"
  by (simp add: list_steps_def demo_defs run_defs)

text \<open>
  C3 (the code departs from the claim). A successful installation with no candidate
  executable should fail with NoExecutableFound. Neither branch of lines 206 to 215
  then assigns \<open>answer\<close>, and line 216 raises UnboundLocalError while it evaluates
  the arguments of \<open>write_game_record\<close>: the backend has been called, nothing is
  written, and the error is not the one claimed.
\<close>

theorem no_candidates_unbound_answer:
  "install_run no_candidates_world (Some ''Game'') (Some ''u1'') None demo_manager =
     (Inl (UnboundLocalError ''answer''),
      demo_manager\<lparr>trace := [InstallGame (Some ''Game'') None]\<rparr>)
   \<and> exn_name (UnboundLocalError ''answer'') \<noteq> ''NoExecutableFound''"
  by (simp add: world_defs demo_defs run_defs)













lemma db_resolve_executable:
  "db (snd (resolve_executable w result s)) = db s"
  unfolding resolve_executable_def
  by (auto split: option.splits list.splits intro!: db_bnd)





text \<open>
  Given only the name, the steps of \<open>uninstall\<close> pass the uuid \<open>None\<close> on to
  \<open>delete_game_record\<close>, and the record written by the install stays. No run of the
  commands reaches these steps: \<open>install_game\<close> stops at its first line and
  \<open>uninstall\<close> in \<open>login\<close>.
\<close>

lemma uninstall_by_name_keeps_record:
  "fst (uninstall_steps demo_world (Some ''Game'') None
        (snd (install_steps demo_world (Some ''Game'') None None demo_manager))) = Inr ()
   \<and> map rec_install_dir (db (snd (uninstall_steps demo_world (Some ''Game'') None
        (snd (install_steps demo_world (Some ''Game'') None None demo_manager)))))
     = [Some ''C:/Games/Game'']"
  by (simp add: world_defs demo_defs run_defs)

end
